theory Spec2Isabelle
  imports Complex_Main
begin

section \<open>Session state and the reducer (contexts/AuthContext.tsx)\<close>

text \<open>
  The TypeScript declarations \<^verbatim>\<open>AdminUser\<close> and \<^verbatim>\<open>AuthState\<close> of the types module.
  An optional field (\<^verbatim>\<open>avatar_url?\<close>) and a nullable one (\<^verbatim>\<open>user: AdminUser | null\<close>)
  are options; \<^verbatim>\<open>None\<close> is the absent or \<^verbatim>\<open>null\<close> value.
\<close>

datatype Role = admin | super_admin

record AdminUser =
  id' :: int
  username :: string
  email :: string
  role :: Role
  avatar_url :: "string option"
  last_login_at :: "string option"
  created_at :: string

text \<open>
  \<^verbatim>\<open>AuthState & { error: string | null }\<close>. The reducer never inspects an identity or a
  credential, so the state is polymorphic in both: \<^typ>\<open>'u\<close> is the type of the non-null
  identity values and \<^typ>\<open>'t\<close> the type of the non-null credential values.
\<close>

record ('u, 't) AuthState =
  user :: "'u option"
  token :: "'t option"
  isAuthenticated :: bool
  loading :: bool
  error :: "string option"

datatype ('u, 't) AuthAction =
    LOGIN_START
  | LOGIN_SUCCESS 'u 't
  | LOGIN_FAILURE string
  | LOGOUT
  | SET_USER 'u
  | SET_LOADING bool

definition initialState :: "('u, 't) AuthState" where
  "initialState =
     \<lparr>user = None, token = None, isAuthenticated = False, loading = True, error = None\<rparr>"

text \<open>
  One equation per \<^verbatim>\<open>case\<close> of the \<^verbatim>\<open>switch\<close>, in the source's order. The spread
  \<^verbatim>\<open>...state\<close> is the record update; the \<^verbatim>\<open>default\<close> branch is unreachable for the
  closed action type.
\<close>

fun authReducer :: "('u, 't) AuthState \<Rightarrow> ('u, 't) AuthAction \<Rightarrow> ('u, 't) AuthState" where
  "authReducer state LOGIN_START = state\<lparr>loading := True, error := None\<rparr>"
| "authReducer state (LOGIN_SUCCESS u t) =
     state\<lparr>user := Some u, token := Some t, isAuthenticated := True,
           loading := False, error := None\<rparr>"
| "authReducer state (LOGIN_FAILURE msg) =
     state\<lparr>user := None, token := None, isAuthenticated := False,
           loading := False, error := Some msg\<rparr>"
| "authReducer state LOGOUT =
     state\<lparr>user := None, token := None, isAuthenticated := False,
           loading := False, error := None\<rparr>"
| "authReducer state (SET_USER u) =
     state\<lparr>user := Some u, isAuthenticated := True, loading := False\<rparr>"
| "authReducer state (SET_LOADING b) = state\<lparr>loading := b\<rparr>"

text \<open>The state reached from \<^const>\<open>initialState\<close> by a sequence of dispatched actions.\<close>

definition reduceAll :: "('u, 't) AuthAction list \<Rightarrow> ('u, 't) AuthState" where
  "reduceAll acts = foldl authReducer initialState acts"

fun is_SET_USER :: "('u, 't) AuthAction \<Rightarrow> bool" where
  "is_SET_USER (SET_USER u) = True"
| "is_SET_USER a = False"

section \<open>Values read back from storage\<close>

text \<open>
  \<^verbatim>\<open>JSON.parse\<close> returns an untyped JavaScript value, and the provider dispatches it
  without validation (\<^verbatim>\<open>as AdminUser\<close> is a compile-time cast). The values it can return
  are the JSON values; a number is an IEEE double, which is a rational or an infinity
  (\<^verbatim>\<open>JSON.parse("1e999")\<close>), and both zeros are \<open>Finite 0\<close>.
\<close>

datatype jsnumber = Finite rat | PosInfinity | NegInfinity

datatype json =
    JNull
  | JBool bool
  | JNum jsnumber
  | JStr string
  | JArr "json list"
  | JObj "(string \<times> json) list"

text \<open>JavaScript truthiness, as the conditions \<^verbatim>\<open>token && user\<close> and \<^verbatim>\<open>!auth.token\<close> use it.\<close>

fun truthy :: "json \<Rightarrow> bool" where
  "truthy JNull = False"
| "truthy (JBool b) = b"
| "truthy (JNum n) = (n \<noteq> Finite 0)"
| "truthy (JStr s) = (s \<noteq> [])"
| "truthy (JArr xs) = True"
| "truthy (JObj kvs) = True"

text \<open>
  A nullable field or an optional property as a JavaScript value: \<open>JNull\<close> stands for
  \<^verbatim>\<open>null\<close> and for \<^verbatim>\<open>undefined\<close>, which are both falsy.
\<close>

definition nullable :: "json option \<Rightarrow> json" where
  "nullable v = (case v of None \<Rightarrow> JNull | Some j \<Rightarrow> j)"

text \<open>\<^verbatim>\<open>a || b\<close> on an optional string: an absent or empty \<^verbatim>\<open>a\<close> gives \<^verbatim>\<open>b\<close>.\<close>

definition js_or :: "string option \<Rightarrow> string \<Rightarrow> string" where
  "js_or a b = (case a of None \<Rightarrow> b | Some s \<Rightarrow> if s = [] then b else s)"

section \<open>The two storage scopes and the world the provider acts on\<close>

text \<open>
  A Web Storage area maps keys to strings; \<^verbatim>\<open>getItem\<close> of a missing key is \<^verbatim>\<open>null\<close>.
\<close>

type_synonym Storage = "string \<rightharpoonup> string"

definition getItem :: "Storage \<Rightarrow> string \<Rightarrow> string option" where
  "getItem st k = st k"

definition setItem :: "Storage \<Rightarrow> string \<Rightarrow> string \<Rightarrow> Storage" where
  "setItem st k v = st(k \<mapsto> v)"

definition removeItem :: "Storage \<Rightarrow> string \<Rightarrow> Storage" where
  "removeItem st k = st(k := None)"

text \<open>The backend endpoints of \<^verbatim>\<open>authService\<close>.\<close>

datatype endpoint = POST_login | POST_logout | GET_me | POST_refresh

text \<open>
  Everything the session code reads or writes: the two storage areas, the state held by
  \<^verbatim>\<open>useReducer\<close>, and the requests handed to the HTTP client so far, oldest first.
\<close>

record world =
  localStorage :: Storage
  sessionStorage :: Storage
  state :: "(json, json) AuthState"
  requests :: "endpoint list"

definition dispatch :: "(json, json) AuthAction \<Rightarrow> world \<Rightarrow> world" where
  "dispatch a w = w\<lparr>state := authReducer (state w) a\<rparr>"

section \<open>AuthProvider: initialisation, logout, setUser, clearError\<close>

text \<open>
  \<^verbatim>\<open>localStorage.getItem('admin_remember_me') === 'true'\<close> (\<^verbatim>\<open>window\<close> is defined in a
  browser).
\<close>

definition remember :: "Storage \<Rightarrow> bool" where
  "remember ls = (getItem ls ''admin_remember_me'' = Some ''true'')"

text \<open>
  \<^verbatim>\<open>raw ? JSON.parse(raw) : null\<close>. The parser is the platform's and is a parameter:
  \<open>parse raw = None\<close> when \<^verbatim>\<open>JSON.parse(raw)\<close> throws. A missing or empty raw value
  is not parsed. The result \<open>None\<close> is the thrown \<^verbatim>\<open>SyntaxError\<close>.
\<close>

definition parseItem :: "(string \<Rightarrow> json option) \<Rightarrow> string option \<Rightarrow> json option" where
  "parseItem parse raw =
     (case raw of
        None \<Rightarrow> Some JNull
      | Some r \<Rightarrow> if r = [] then Some JNull else parse r)"

text \<open>
  \<^verbatim>\<open>initializeAuth\<close>: the \<^verbatim>\<open>try\<close> body reads the selected store, parses the credential
  and then the identity; either parse throwing reaches the \<^verbatim>\<open>catch\<close>, which dispatches
  \<^verbatim>\<open>SET_LOADING false\<close>.
\<close>

definition initializeAuth :: "(string \<Rightarrow> json option) \<Rightarrow> world \<Rightarrow> world" where
  "initializeAuth parse w =
     (let storage = (if remember (localStorage w) then localStorage w else sessionStorage w);
          tokenRaw = getItem storage ''admin_token'';
          userRaw = getItem storage ''admin_user''
      in case parseItem parse tokenRaw of
           None \<Rightarrow> dispatch (SET_LOADING False) w
         | Some tok \<Rightarrow>
             (case parseItem parse userRaw of
                None \<Rightarrow> dispatch (SET_LOADING False) w
              | Some usr \<Rightarrow>
                  if truthy tok \<and> truthy usr
                  then dispatch (LOGIN_SUCCESS usr tok) w
                  else dispatch (SET_LOADING False) w))"

text \<open>
  \<^verbatim>\<open>logout\<close>: removes the four keys, dispatches \<^verbatim>\<open>LOGOUT\<close>, then posts the best-effort
  backend logout, whose answer is not awaited. Each removal has its own \<^verbatim>\<open>try\<close>, and
  neither the dispatch nor the dynamic import throws, so the outer \<^verbatim>\<open>catch\<close> (which would
  dispatch \<^verbatim>\<open>LOGOUT\<close> once more) is not entered.
\<close>

definition clearAuthData :: "world \<Rightarrow> world" where
  "clearAuthData w =
     w\<lparr>localStorage :=
         removeItem (removeItem (localStorage w) ''admin_token'') ''admin_user'',
       sessionStorage :=
         removeItem (removeItem (sessionStorage w) ''admin_token'') ''admin_user''\<rparr>"

definition logout :: "world \<Rightarrow> world" where
  "logout w =
     (let w1 = dispatch LOGOUT (clearAuthData w)
      in w1\<lparr>requests := requests w1 @ [POST_logout]\<rparr>)"

text \<open>
  \<^verbatim>\<open>setUser\<close>. The helper \<^verbatim>\<open>setToStorage\<close> of the utils module is a parameter acting on
  the pair of storage areas.
\<close>

definition setUser ::
  "(string \<Rightarrow> json \<Rightarrow> Storage \<times> Storage \<Rightarrow> Storage \<times> Storage) \<Rightarrow> json \<Rightarrow> world \<Rightarrow> world" where
  "setUser setToStorage u w =
     (let (ls, ss) = setToStorage ''admin_user'' u (localStorage w, sessionStorage w)
      in dispatch (SET_USER u) (w\<lparr>localStorage := ls, sessionStorage := ss\<rparr>))"

definition clearError :: "world \<Rightarrow> world" where
  "clearError w = dispatch (LOGIN_FAILURE []) w"

section \<open>The HTTP client (services/api.ts)\<close>

text \<open>
  Reading a property of a JavaScript value that is not \<^verbatim>\<open>null\<close>: the value of the key for an
  object, which lists each key once, and \<^verbatim>\<open>undefined\<close> (\<open>None\<close>) for a missing key. The keys
  read here (\<^verbatim>\<open>ok\<close>, \<^verbatim>\<open>data\<close>, \<^verbatim>\<open>error\<close>, \<^verbatim>\<open>user\<close>, \<^verbatim>\<open>token\<close>) are properties of no boolean,
  number, string or array, for which the result is \<^verbatim>\<open>undefined\<close> as well.
\<close>

definition js_field :: "string \<Rightarrow> json \<Rightarrow> json option" where
  "js_field k j = (case j of JObj kvs \<Rightarrow> map_of kvs k | _ \<Rightarrow> None)"

text \<open>
  An \<^verbatim>\<open>ApiResponse\<close> at run time, with the fields the session code reads: \<^verbatim>\<open>ok\<close>, \<^verbatim>\<open>data\<close>
  and \<^verbatim>\<open>error\<close> (here \<open>api_error\<close>, since \<open>error\<close> is the field of the session state).
  Each is whatever value the body has under that key; \<open>None\<close> is \<^verbatim>\<open>undefined\<close>.
\<close>

record ApiResponse =
  ok :: "json option"
  data :: "json option"
  api_error :: "json option"

text \<open>
  What the transport gives back for one request. A fulfilled request carries the response
  body, which is any JSON value (\<^verbatim>\<open>response.data\<close>; an empty body is the empty string). A
  rejected request is an \<^verbatim>\<open>AxiosError\<close>: without a response (a network error or a timeout,
  carrying \<^verbatim>\<open>error.message\<close>), or with the status and the body's optional \<^verbatim>\<open>error\<close> and
  \<^verbatim>\<open>message\<close>.
\<close>

datatype axios_error = NoResponse string | ErrorResponse nat "string option" "string option"

datatype transport = Fulfilled json | Rejected axios_error

text \<open>
  The window event \<^verbatim>\<open>auth:logout\<close>. Its only listener is \<^verbatim>\<open>handleLogoutEvent\<close> of
  \<^verbatim>\<open>useAuthManager\<close>, which calls \<^verbatim>\<open>auth.logout()\<close>; \<open>listening\<close> says whether that
  effect has registered it.
\<close>

definition handleLogoutEvent :: "world \<Rightarrow> world" where
  "handleLogoutEvent w = logout w"

definition dispatchEvent_auth_logout :: "bool \<Rightarrow> world \<Rightarrow> world" where
  "dispatchEvent_auth_logout listening w = (if listening then handleLogoutEvent w else w)"

text \<open>
  The response interceptor's error branch: on status 401 it clears the four keys and
  fires \<^verbatim>\<open>auth:logout\<close>; it then rejects with an \<^verbatim>\<open>Error\<close> whose message is returned here.
\<close>

fun responseErrorInterceptor :: "bool \<Rightarrow> axios_error \<Rightarrow> world \<Rightarrow> string \<times> world" where
  "responseErrorInterceptor listening (NoResponse msg) w =
     (''Network error. Please check your connection.'', w)"
| "responseErrorInterceptor listening (ErrorResponse status e m) w =
     (js_or e (js_or m ''An error occurred''),
      if status = 401 then dispatchEvent_auth_logout listening (clearAuthData w) else w)"

text \<open>
  The message of the \<^verbatim>\<open>TypeError\<close> that reading \<^verbatim>\<open>responseData.ok\<close> of a \<^verbatim>\<open>null\<close> body
  throws; its wording is the JavaScript engine's.
\<close>

definition typeError_message :: string where
  "typeError_message = ''Cannot read properties of null''"

text \<open>
  \<^verbatim>\<open>apiRequest\<close>: the request is handed to the client. Reading \<^verbatim>\<open>responseData.ok\<close> of a
  \<^verbatim>\<open>null\<close> body throws inside the \<^verbatim>\<open>try\<close>; a body with an \<^verbatim>\<open>ok\<close> property is returned as
  it is; any other body is wrapped as \<^verbatim>\<open>{ ok: true, data: responseData }\<close>. The \<^verbatim>\<open>catch\<close>
  turns the thrown error and every rejection into \<^verbatim>\<open>{ ok: false, error }\<close>, so that
  \<^verbatim>\<open>apiRequest\<close> itself never throws.
\<close>

definition apiRequest :: "bool \<Rightarrow> endpoint \<Rightarrow> transport \<Rightarrow> world \<Rightarrow> ApiResponse \<times> world" where
  "apiRequest listening ep outcome w =
     (let w0 = w\<lparr>requests := requests w @ [ep]\<rparr>
      in case outcome of
           Fulfilled responseData \<Rightarrow>
             (if responseData = JNull
              then (\<lparr>ok = Some (JBool False), data = None,
                     api_error = Some (JStr typeError_message)\<rparr>, w0)
              else if js_field ''ok'' responseData \<noteq> None
              then (\<lparr>ok = js_field ''ok'' responseData,
                     data = js_field ''data'' responseData,
                     api_error = js_field ''error'' responseData\<rparr>, w0)
              else (\<lparr>ok = Some (JBool True), data = Some responseData, api_error = None\<rparr>,
                    w0))
         | Rejected err \<Rightarrow>
             (let (msg, w1) = responseErrorInterceptor listening err w0
              in (\<lparr>ok = Some (JBool False), data = None, api_error = Some (JStr msg)\<rparr>,
                  w1)))"

text \<open>
  \<^verbatim>\<open>response.ok && response.data\<close>: both values are truthy; \<^verbatim>\<open>undefined\<close> is falsy as
  \<^verbatim>\<open>null\<close> is.
\<close>

definition ok_with_data :: "ApiResponse \<Rightarrow> bool" where
  "ok_with_data r = (truthy (nullable (ok r)) \<and> truthy (nullable (data r)))"

text \<open>
  \<^verbatim>\<open>JSON.stringify(v)\<close> as the argument of \<^verbatim>\<open>setItem\<close>: for an \<^verbatim>\<open>undefined\<close> value
  \<^verbatim>\<open>JSON.stringify\<close> returns \<^verbatim>\<open>undefined\<close>, which the storage converts to the text
  \<^verbatim>\<open>undefined\<close>. The serialiser \<^verbatim>\<open>JSON.stringify\<close> is the platform's and is a parameter.
\<close>

definition stored_text :: "(json \<Rightarrow> string) \<Rightarrow> json option \<Rightarrow> string" where
  "stored_text stringify v = (case v of None \<Rightarrow> ''undefined'' | Some j \<Rightarrow> stringify j)"

text \<open>
  The message of \<^verbatim>\<open>new Error(v)\<close> for a truthy \<^verbatim>\<open>v\<close>: a string is its own message, any
  other value is converted by the platform's \<^verbatim>\<open>String\<close>, a parameter.
\<close>

definition error_message :: "(json \<Rightarrow> string) \<Rightarrow> json \<Rightarrow> string" where
  "error_message toString v = (case v of JStr s \<Rightarrow> s | _ \<Rightarrow> toString v)"

section \<open>AuthProvider: login\<close>

text \<open>
  \<^verbatim>\<open>login\<close>. The first component is the rethrown error's message, if the promise rejects.
  \<^verbatim>\<open>const { user, token } = response.data\<close> reads the two properties of a truthy payload;
  a property the payload lacks is \<^verbatim>\<open>undefined\<close>, which the dispatched action carries into
  the state, where it is \<open>JNull\<close> as \<^verbatim>\<open>null\<close> is. Storage writes are taken to succeed.
\<close>

definition login ::
  "(json \<Rightarrow> string) \<Rightarrow> (json \<Rightarrow> string) \<Rightarrow> bool \<Rightarrow> transport \<Rightarrow> world \<Rightarrow>
   string option \<times> world" where
  "login stringify toString listening outcome w =
     (let (response, w1) = apiRequest listening POST_login outcome (dispatch LOGIN_START w)
      in if ok_with_data response
         then
           (let usr = js_field ''user'' (nullable (data response));
                tok = js_field ''token'' (nullable (data response));
                w2 =
                  (if remember (localStorage w1)
                   then w1\<lparr>localStorage :=
                             setItem
                               (setItem (localStorage w1) ''admin_token''
                                  (stored_text stringify tok))
                               ''admin_user'' (stored_text stringify usr),
                           sessionStorage :=
                             removeItem (removeItem (sessionStorage w1) ''admin_token'')
                               ''admin_user''\<rparr>
                   else w1\<lparr>sessionStorage :=
                             setItem
                               (setItem (sessionStorage w1) ''admin_token''
                                  (stored_text stringify tok))
                               ''admin_user'' (stored_text stringify usr),
                           localStorage :=
                             removeItem (removeItem (localStorage w1) ''admin_token'')
                               ''admin_user''\<rparr>)
            in (None, dispatch (LOGIN_SUCCESS (nullable usr) (nullable tok)) w2))
         else
           (let errorMessage =
                  (if truthy (nullable (api_error response))
                   then error_message toString (nullable (api_error response))
                   else ''Login failed'')
            in (Some errorMessage, dispatch (LOGIN_FAILURE errorMessage) w1)))"

section \<open>useAuthManager (hooks/useAuthManager.ts)\<close>

text \<open>
  \<^verbatim>\<open>refreshToken\<close>: no request without a credential in the state; on an answer whose
  \<^verbatim>\<open>ok\<close> and \<^verbatim>\<open>data\<close> are truthy, the \<^verbatim>\<open>token\<close> property of the data is written to
  \<^verbatim>\<open>localStorage\<close> and nothing is dispatched. The hook's callbacks read \<^verbatim>\<open>auth.token\<close> and
  \<^verbatim>\<open>auth.user\<close> from the render they were created in; here that is the state of the world
  the callback starts in. Since \<^verbatim>\<open>apiRequest\<close> does not throw and a storage write is taken
  to succeed, the \<^verbatim>\<open>catch\<close> branch, which returns false as the last line does, is not
  entered.
\<close>

definition refreshToken ::
  "(json \<Rightarrow> string) \<Rightarrow> bool \<Rightarrow> transport \<Rightarrow> world \<Rightarrow> bool \<times> world" where
  "refreshToken stringify listening outcome w =
     (if \<not> truthy (nullable (token (state w))) then (False, w)
      else
        (let (response, w1) = apiRequest listening POST_refresh outcome w
         in if ok_with_data response
            then
              (let tok = js_field ''token'' (nullable (data response))
               in (True, w1\<lparr>localStorage :=
                              setItem (localStorage w1) ''admin_token''
                                (stored_text stringify tok)\<rparr>))
            else (False, w1)))"

text \<open>
  \<^verbatim>\<open>validateSession\<close>: on an answer whose \<^verbatim>\<open>ok\<close> and \<^verbatim>\<open>data\<close> are truthy, the identity is
  replaced by the data when its serialisation differs from that of the identity the hook
  last rendered with.
\<close>

definition validateSession ::
  "(json \<Rightarrow> string) \<Rightarrow> (string \<Rightarrow> json \<Rightarrow> Storage \<times> Storage \<Rightarrow> Storage \<times> Storage) \<Rightarrow>
   bool \<Rightarrow> transport \<Rightarrow> world \<Rightarrow> bool \<times> world" where
  "validateSession stringify setToStorage listening outcome w =
     (if \<not> truthy (nullable (token (state w))) then (False, w)
      else
        (let (response, w1) = apiRequest listening GET_me outcome w
         in if ok_with_data response
            then
              (True,
               if stringify (nullable (user (state w))) \<noteq> stringify (nullable (data response))
               then setUser setToStorage (nullable (data response)) w1 else w1)
            else (False, w1)))"

text \<open>\<^verbatim>\<open>handleTokenExpiration\<close>, the body of the 50-minute interval.\<close>

definition handleTokenExpiration ::
  "(json \<Rightarrow> string) \<Rightarrow> bool \<Rightarrow> transport \<Rightarrow> world \<Rightarrow> bool \<times> world" where
  "handleTokenExpiration stringify listening outcome w =
     (let (refreshed, w1) = refreshToken stringify listening outcome w
      in if \<not> refreshed then (False, logout w1) else (True, w1))"

text \<open>The fields of a \<^verbatim>\<open>StorageEvent\<close> that \<^verbatim>\<open>handleStorageChange\<close> reads.\<close>

record StorageEvent =
  key :: "string option"
  newValue :: "string option"

definition handleStorageChange :: "StorageEvent \<Rightarrow> world \<Rightarrow> world" where
  "handleStorageChange e w =
     (if key e = Some ''admin_token'' \<and> newValue e = None then logout w else w)"

datatype visibilityState = visible | hidden

text \<open>\<^verbatim>\<open>handleVisibilityChange\<close>; the result of \<^verbatim>\<open>validateSession\<close> is discarded.\<close>

definition handleVisibilityChange ::
  "(json \<Rightarrow> string) \<Rightarrow> (string \<Rightarrow> json \<Rightarrow> Storage \<times> Storage \<Rightarrow> Storage \<times> Storage) \<Rightarrow>
   bool \<Rightarrow> visibilityState \<Rightarrow> transport \<Rightarrow> world \<Rightarrow> world" where
  "handleVisibilityChange stringify setToStorage listening vis outcome w =
     (if vis = visible \<and> isAuthenticated (state w)
      then snd (validateSession stringify setToStorage listening outcome w)
      else w)"

section \<open>Notions used to state the properties\<close>

text \<open>
  What every reachable state satisfies, and the stronger relation between the flag and the
  two fields that holds as long as \<^verbatim>\<open>SET_USER\<close> is not dispatched.
\<close>

definition reducer_inv :: "('u, 't) AuthState \<Rightarrow> bool" where
  "reducer_inv s =
     ((isAuthenticated s \<longleftrightarrow> user s \<noteq> None) \<and> (token s \<noteq> None \<longrightarrow> user s \<noteq> None))"

definition strict_inv :: "('u, 't) AuthState \<Rightarrow> bool" where
  "strict_inv s = (isAuthenticated s \<longleftrightarrow> (user s \<noteq> None \<and> token s \<noteq> None))"

text \<open>
  A request succeeded, for the hooks, when it was answered and the answer passes
  \<^verbatim>\<open>response.ok && response.data\<close>: the body has an \<^verbatim>\<open>ok\<close> property and its \<^verbatim>\<open>ok\<close> and
  \<^verbatim>\<open>data\<close> are truthy, or the body has no \<^verbatim>\<open>ok\<close> property and is itself truthy. Every
  other outcome is a failure: a rejected request, a \<^verbatim>\<open>null\<close> or otherwise falsy body, an
  answer whose \<^verbatim>\<open>ok\<close> is falsy, an answer whose \<^verbatim>\<open>data\<close> is missing or falsy. An outcome
  is unauthorized when it is an error response with status 401.
\<close>

fun success :: "transport \<Rightarrow> bool" where
  "success (Rejected err) = False"
| "success (Fulfilled (JObj kvs)) =
     (case map_of kvs ''ok'' of
        None \<Rightarrow> True
      | Some okv \<Rightarrow>
          truthy okv \<and> (case map_of kvs ''data'' of None \<Rightarrow> False | Some d \<Rightarrow> truthy d))"
| "success (Fulfilled body) = truthy body"

fun unauthorized :: "transport \<Rightarrow> bool" where
  "unauthorized (Rejected (ErrorResponse status e m)) = (status = 401)"
| "unauthorized outcome = False"

section \<open>Concrete sessions for the examples\<close>

definition example_user :: AdminUser where
  "example_user =
     \<lparr>id' = 1, username = ''amina'', email = ''amina@example.org'', role = admin,
      avatar_url = None, last_login_at = None, created_at = ''2024-01-01''\<rparr>"

text \<open>A string between double quotes, as \<^verbatim>\<open>JSON.stringify\<close> writes a plain string.\<close>

definition quote :: "string \<Rightarrow> string" where
  "quote s = CHR 0x22 # s @ [CHR 0x22]"

definition example_identity :: json where
  "example_identity = JObj [(''id'', JNum (Finite 1)), (''username'', JStr ''amina'')]"

definition example_identity_raw :: string where
  "example_identity_raw =
     ''{'' @ quote ''id'' @ '':1,'' @ quote ''username'' @ '':'' @ quote ''amina'' @ ''}''"

text \<open>
  A parser and a serialiser that agree with \<^verbatim>\<open>JSON.parse\<close> and \<^verbatim>\<open>JSON.stringify\<close> on the
  values of the examples: the credentials \<^verbatim>\<open>"T1"\<close> and \<^verbatim>\<open>"T2"\<close>, the identity above, and
  the malformed text \<^verbatim>\<open>{oops\<close>.
\<close>

definition example_parse :: "string \<Rightarrow> json option" where
  "example_parse r =
     (if r = quote ''T1'' then Some (JStr ''T1'')
      else if r = quote ''T2'' then Some (JStr ''T2'')
      else if r = example_identity_raw then Some example_identity
      else None)"

definition example_stringify :: "json \<Rightarrow> string" where
  "example_stringify j =
     (case j of
        JStr s \<Rightarrow> quote s
      | _ \<Rightarrow> if j = example_identity then example_identity_raw else ''null'')"

definition example_toString :: "json \<Rightarrow> string" where
  "example_toString j = (case j of JStr s \<Rightarrow> s | _ \<Rightarrow> ''[object Object]'')"

definition example_setToStorage ::
  "string \<Rightarrow> json \<Rightarrow> Storage \<times> Storage \<Rightarrow> Storage \<times> Storage" where
  "example_setToStorage k v = (\<lambda>(ls, ss). (setItem ls k (example_stringify v), ss))"

text \<open>The world at page load with empty storage, and a session kept in the tab's store.\<close>

definition fresh_world :: world where
  "fresh_world =
     \<lparr>localStorage = Map.empty, sessionStorage = Map.empty,
      state = initialState, requests = []\<rparr>"

definition tab_session :: world where
  "tab_session =
     \<lparr>localStorage = Map.empty,
      sessionStorage =
        [''admin_token'' \<mapsto> quote ''T1'', ''admin_user'' \<mapsto> example_identity_raw],
      state = \<lparr>user = Some example_identity, token = Some (JStr ''T1''),
                isAuthenticated = True, loading = False, error = None\<rparr>,
      requests = []\<rparr>"

text \<open>
  A remembered session in the persistent store, and a tab-scoped store holding another
  credential and a malformed identity.
\<close>

definition remembered_store :: Storage where
  "remembered_store =
     [''admin_remember_me'' \<mapsto> ''true'', ''admin_token'' \<mapsto> quote ''T1'',
      ''admin_user'' \<mapsto> example_identity_raw]"

definition other_tab_store :: Storage where
  "other_tab_store = [''admin_token'' \<mapsto> quote ''T2'', ''admin_user'' \<mapsto> ''{oops'']"

section \<open>Properties of the reducer\<close>

text \<open>
  Claim C3. Dispatching \<^verbatim>\<open>LOGOUT\<close> twice gives the state that dispatching it once gives,
  and that state has no identity, no credential, is not authenticated, is not loading and
  carries no error.
\<close>

theorem logout_idempotent:
  "authReducer (authReducer s LOGOUT) LOGOUT = authReducer s LOGOUT
   \<and> user (authReducer s LOGOUT) = None
   \<and> token (authReducer s LOGOUT) = None
   \<and> isAuthenticated (authReducer s LOGOUT) = False
   \<and> loading (authReducer s LOGOUT) = False
   \<and> error (authReducer s LOGOUT) = None"
  by simp

lemma reducer_inv_step: "reducer_inv s \<Longrightarrow> reducer_inv (authReducer s a)"
  by (cases a) (auto simp: reducer_inv_def)

lemma reducer_inv_foldl: "reducer_inv s \<Longrightarrow> reducer_inv (foldl authReducer s acts)"
  by (induction acts arbitrary: s) (simp_all add: reducer_inv_step)

lemma strict_inv_step: "strict_inv s \<Longrightarrow> \<not> is_SET_USER a \<Longrightarrow> strict_inv (authReducer s a)"
  by (cases a) (auto simp: strict_inv_def)

lemma strict_inv_foldl:
  "strict_inv s \<Longrightarrow> \<forall>a \<in> set acts. \<not> is_SET_USER a \<Longrightarrow> strict_inv (foldl authReducer s acts)"
  by (induction acts arbitrary: s) (simp_all add: strict_inv_step)

lemma reducer_inv_reduceAll: "reducer_inv (reduceAll acts)"
  unfolding reduceAll_def by (rule reducer_inv_foldl) (simp add: reducer_inv_def initialState_def)

lemma strict_inv_reduceAll: "\<forall>a \<in> set acts. \<not> is_SET_USER a \<Longrightarrow> strict_inv (reduceAll acts)"
  unfolding reduceAll_def by (rule strict_inv_foldl) (simp_all add: strict_inv_def initialState_def)

text \<open>
  Claim C1, as the reducer has it. In every state reached from the initial state: when
  identity and credential are both present the session is authenticated, and an
  authenticated session has an identity. The credential may be missing from an
  authenticated session, since \<^verbatim>\<open>SET_USER\<close> sets the flag without one; along action
  sequences without \<^verbatim>\<open>SET_USER\<close> the session is authenticated exactly when both fields
  are present.
\<close>

theorem authenticated_invariant:
  "(user (reduceAll acts) \<noteq> None \<and> token (reduceAll acts) \<noteq> None \<longrightarrow> isAuthenticated (reduceAll acts))
   \<and> (isAuthenticated (reduceAll acts) \<longrightarrow> user (reduceAll acts) \<noteq> None)
   \<and> ((\<forall>a \<in> set acts. \<not> is_SET_USER a) \<longrightarrow>
        (isAuthenticated (reduceAll acts) \<longleftrightarrow> user (reduceAll acts) \<noteq> None \<and> token (reduceAll acts) \<noteq> None))"
  using reducer_inv_reduceAll [of acts] strict_inv_reduceAll [of acts]
  by (auto simp: reducer_inv_def strict_inv_def)

text \<open>The invariant at a login followed by the end of loading.\<close>

theorem authenticated_invariant_witness:
  "isAuthenticated (reduceAll [LOGIN_START, LOGIN_SUCCESS example_user ''T1'', SET_LOADING False])
   \<and> user (reduceAll [LOGIN_START, LOGIN_SUCCESS example_user ''T1'', SET_LOADING False]) = Some example_user
   \<and> token (reduceAll [LOGIN_START, LOGIN_SUCCESS example_user ''T1'', SET_LOADING False]) = Some ''T1''"
  using authenticated_invariant [of "[LOGIN_START, LOGIN_SUCCESS example_user ''T1'', SET_LOADING False]"]
  by (simp add: reduceAll_def initialState_def)

text \<open>
  The equivalence of claim C1 fails after \<^verbatim>\<open>SET_USER\<close> on the initial state: the session
  is authenticated and has no credential.
\<close>

theorem authenticated_invariant_counterexample:
  "\<not> (isAuthenticated (reduceAll [SET_USER example_user :: (AdminUser, string) AuthAction])
       \<longleftrightarrow> user (reduceAll [SET_USER example_user :: (AdminUser, string) AuthAction]) \<noteq> None
          \<and> token (reduceAll [SET_USER example_user :: (AdminUser, string) AuthAction]) \<noteq> None)"
  by (simp add: reduceAll_def initialState_def)

text \<open>
  Claim C2, as the reducer has it. \<^verbatim>\<open>SET_USER\<close> replaces the identity and keeps the
  credential and the error; it sets the authenticated flag to true and the loading flag
  to false, whatever they were.
\<close>

theorem set_user_effect:
  "user (authReducer s (SET_USER u)) = Some u
   \<and> token (authReducer s (SET_USER u)) = token s
   \<and> error (authReducer s (SET_USER u)) = error s
   \<and> isAuthenticated (authReducer s (SET_USER u)) = True
   \<and> loading (authReducer s (SET_USER u)) = False"
  by simp

text \<open>
  The authenticated flag is not kept by \<^verbatim>\<open>SET_USER\<close>: on the initial state it turns
  from false to true.
\<close>

theorem set_user_counterexample:
  "isAuthenticated (authReducer (initialState :: (AdminUser, string) AuthState) (SET_USER example_user))
     \<noteq> isAuthenticated (initialState :: (AdminUser, string) AuthState)"
  by (simp add: initialState_def)

section \<open>Properties of the provider\<close>

lemma dispatch_simps [simp]:
  "state (dispatch a w) = authReducer (state w) a"
  "localStorage (dispatch a w) = localStorage w"
  "sessionStorage (dispatch a w) = sessionStorage w"
  "requests (dispatch a w) = requests w"
  by (simp_all add: dispatch_def)

lemma logout_simps [simp]:
  "state (logout w) = authReducer (state w) LOGOUT"
  "localStorage (logout w) = removeItem (removeItem (localStorage w) ''admin_token'') ''admin_user''"
  "sessionStorage (logout w) = removeItem (removeItem (sessionStorage w) ''admin_token'') ''admin_user''"
  "requests (logout w) = requests w @ [POST_logout]"
  by (simp_all add: logout_def clearAuthData_def Let_def)

text \<open>
  Claim C10. \<^verbatim>\<open>clearError\<close> dispatches \<^verbatim>\<open>LOGIN_FAILURE\<close> with the empty message: the
  error becomes the empty string, identity and credential are cleared, the session is
  neither authenticated nor loading, and neither storage area is written.
\<close>

theorem clearError_logs_out:
  "clearError w = dispatch (LOGIN_FAILURE []) w
   \<and> error (state (clearError w)) = Some []
   \<and> user (state (clearError w)) = None
   \<and> token (state (clearError w)) = None
   \<and> isAuthenticated (state (clearError w)) = False
   \<and> loading (state (clearError w)) = False
   \<and> localStorage (clearError w) = localStorage w
   \<and> sessionStorage (clearError w) = sessionStorage w"
  by (simp add: clearError_def dispatch_def)

text \<open>
  Claim C4. When the initializer runs on the initial state and the store it selects holds,
  under the credential key, a text that the JSON parser rejects, it ends in the state
  without identity and credential, not authenticated and not loading; the thrown parse
  error is caught, and both stores are left as they were.
\<close>

theorem initializeAuth_malformed_credential:
  assumes "state w = initialState"
    and "getItem (if remember (localStorage w) then localStorage w else sessionStorage w)
           ''admin_token'' = Some raw"
    and "parse raw = None"
  shows "state (initializeAuth parse w) = authReducer initialState (SET_LOADING False)
    \<and> user (state (initializeAuth parse w)) = None
    \<and> token (state (initializeAuth parse w)) = None
    \<and> isAuthenticated (state (initializeAuth parse w)) = False
    \<and> loading (state (initializeAuth parse w)) = False
    \<and> localStorage (initializeAuth parse w) = localStorage w
    \<and> sessionStorage (initializeAuth parse w) = sessionStorage w"
  using assms
  by (auto simp: initializeAuth_def parseItem_def Let_def initialState_def
           split: option.splits if_splits)

text \<open>The initializer on a remembered session whose stored credential is \<^verbatim>\<open>{oops\<close>.\<close>

theorem initializeAuth_malformed_credential_witness:
  "state (initializeAuth example_parse
       (fresh_world\<lparr>localStorage :=
           [''admin_remember_me'' \<mapsto> ''true'', ''admin_token'' \<mapsto> ''{oops'',
            ''admin_user'' \<mapsto> example_identity_raw]\<rparr>))
     = \<lparr>user = None, token = None, isAuthenticated = False, loading = False, error = None\<rparr>"
  using initializeAuth_malformed_credential
    [of "fresh_world\<lparr>localStorage :=
           [''admin_remember_me'' \<mapsto> ''true'', ''admin_token'' \<mapsto> ''{oops'',
            ''admin_user'' \<mapsto> example_identity_raw]\<rparr>" "''{oops''" example_parse]
  by (simp add: fresh_world_def remember_def getItem_def example_parse_def quote_def
        example_identity_raw_def initialState_def)

lemma initializeAuth_state_remembered:
  "remember (localStorage w) \<Longrightarrow>
   state (initializeAuth parse (w\<lparr>sessionStorage := ss'\<rparr>)) = state (initializeAuth parse w)"
  by (simp add: initializeAuth_def Let_def split: option.splits)

lemma initializeAuth_state_tab:
  "\<not> remember (localStorage w) \<Longrightarrow> \<not> remember ls' \<Longrightarrow>
   state (initializeAuth parse (w\<lparr>localStorage := ls'\<rparr>)) = state (initializeAuth parse w)"
  by (simp add: initializeAuth_def Let_def split: option.splits)

lemma initializeAuth_valid_pair:
  "state w = initialState \<Longrightarrow> remember (localStorage w) \<Longrightarrow>
   getItem (localStorage w) ''admin_token'' = Some tokenRaw \<Longrightarrow> tokenRaw \<noteq> [] \<Longrightarrow>
   getItem (localStorage w) ''admin_user'' = Some userRaw \<Longrightarrow> userRaw \<noteq> [] \<Longrightarrow>
   parse tokenRaw = Some tok \<Longrightarrow> truthy tok \<Longrightarrow>
   parse userRaw = Some usr \<Longrightarrow> truthy usr \<Longrightarrow>
   state (initializeAuth parse w) =
     \<lparr>user = Some usr, token = Some tok, isAuthenticated = True, loading = False, error = None\<rparr>"
  by (simp add: initializeAuth_def parseItem_def Let_def initialState_def)

text \<open>
  Claim C5. The state the initializer produces depends on the selected store only: with
  the preference set, replacing the tab-scoped store changes nothing, and without it,
  replacing the persistent store by any other store without the preference changes
  nothing. With the preference set and a persistent store whose credential and identity
  texts parse to values the provider accepts as present (truthy values, as every non-empty
  credential string and every identity object is), the initializer, run on the initial
  state, yields the authenticated state holding exactly these two values, whatever the
  tab-scoped store contains.
\<close>

theorem initializeAuth_single_store:
  "(remember (localStorage w) \<longrightarrow>
      state (initializeAuth parse (w\<lparr>sessionStorage := ss'\<rparr>)) = state (initializeAuth parse w))
   \<and> (\<not> remember (localStorage w) \<and> \<not> remember ls' \<longrightarrow>
      state (initializeAuth parse (w\<lparr>localStorage := ls'\<rparr>)) = state (initializeAuth parse w))
   \<and> (state w = initialState \<and> remember (localStorage w)
       \<and> getItem (localStorage w) ''admin_token'' = Some tokenRaw \<and> tokenRaw \<noteq> []
       \<and> getItem (localStorage w) ''admin_user'' = Some userRaw \<and> userRaw \<noteq> []
       \<and> parse tokenRaw = Some tok \<and> truthy tok
       \<and> parse userRaw = Some usr \<and> truthy usr \<longrightarrow>
      state (initializeAuth parse (w\<lparr>sessionStorage := ss'\<rparr>)) =
        \<lparr>user = Some usr, token = Some tok, isAuthenticated = True, loading = False,
         error = None\<rparr>)"
  using initializeAuth_state_remembered [of w parse ss'] initializeAuth_state_tab [of w ls' parse]
    initializeAuth_valid_pair [of w tokenRaw userRaw parse tok usr]
  by auto

text \<open>
  A remembered session beside a tab-scoped store with other contents, and a tab-scoped
  session beside a persistent store with a malformed credential.
\<close>

theorem initializeAuth_single_store_witness:
  "state (initializeAuth example_parse
       (fresh_world\<lparr>localStorage := remembered_store, sessionStorage := other_tab_store\<rparr>))
     = \<lparr>user = Some example_identity, token = Some (JStr ''T1''), isAuthenticated = True,
        loading = False, error = None\<rparr>
   \<and> state (initializeAuth example_parse
       (tab_session\<lparr>localStorage := [''admin_token'' \<mapsto> ''{oops'']\<rparr>))
     = state (initializeAuth example_parse tab_session)"
proof -
  let ?w = "fresh_world\<lparr>localStorage := remembered_store\<rparr>"
  have sel: "remember (localStorage ?w)"
    by (simp add: remembered_store_def remember_def getItem_def)
  have pair: "state ?w = initialState
      \<and> getItem (localStorage ?w) ''admin_token'' = Some (quote ''T1'') \<and> quote ''T1'' \<noteq> []
      \<and> getItem (localStorage ?w) ''admin_user'' = Some example_identity_raw
      \<and> example_identity_raw \<noteq> []
      \<and> example_parse (quote ''T1'') = Some (JStr ''T1'') \<and> truthy (JStr ''T1'')
      \<and> example_parse example_identity_raw = Some example_identity \<and> truthy example_identity"
    by (simp add: fresh_world_def remembered_store_def getItem_def example_parse_def quote_def
          example_identity_raw_def example_identity_def)
  have tab: "\<not> remember (localStorage tab_session)
      \<and> \<not> remember [''admin_token'' \<mapsto> ''{oops'']"
    by (simp add: tab_session_def remember_def getItem_def)
  have a: "state (initializeAuth example_parse (?w\<lparr>sessionStorage := other_tab_store\<rparr>))
      = \<lparr>user = Some example_identity, token = Some (JStr ''T1''), isAuthenticated = True,
         loading = False, error = None\<rparr>"
    using sel pair
      initializeAuth_single_store [of ?w example_parse other_tab_store Map.empty
        "quote ''T1''" example_identity_raw "JStr ''T1''" example_identity]
    by blast
  have b: "state (initializeAuth example_parse
         (tab_session\<lparr>localStorage := [''admin_token'' \<mapsto> ''{oops'']\<rparr>))
      = state (initializeAuth example_parse tab_session)"
    using tab
      initializeAuth_single_store [of tab_session example_parse Map.empty
        "[''admin_token'' \<mapsto> ''{oops'']"]
    by blast
  have eq: "?w\<lparr>sessionStorage := other_tab_store\<rparr>
      = fresh_world\<lparr>localStorage := remembered_store, sessionStorage := other_tab_store\<rparr>"
    by simp
  show ?thesis using a b eq by simp
qed

section \<open>Properties of the HTTP client and of useAuthManager\<close>

lemma clearAuthData_simps [simp]:
  "state (clearAuthData w) = state w"
  "requests (clearAuthData w) = requests w"
  "localStorage (clearAuthData w) = removeItem (removeItem (localStorage w) ''admin_token'') ''admin_user''"
  "sessionStorage (clearAuthData w) = removeItem (removeItem (sessionStorage w) ''admin_token'') ''admin_user''"
  by (simp_all add: clearAuthData_def)

lemma apiRequest_success:
  "ok_with_data (fst (apiRequest listening ep outcome w)) = success outcome"
proof (cases outcome)
  case (Fulfilled body)
  then show ?thesis
    by (cases body)
       (auto simp: apiRequest_def ok_with_data_def js_field_def nullable_def Let_def
             split: option.splits)
next
  case (Rejected err)
  then show ?thesis
    by (simp add: apiRequest_def ok_with_data_def nullable_def Let_def split: prod.splits)
qed

lemma apiRequest_failure:
  "\<not> success outcome \<Longrightarrow> \<not> ok_with_data (fst (apiRequest listening ep outcome w))"
  by (simp add: apiRequest_success)

lemma apiRequest_requests:
  "count_list (requests (snd (apiRequest listening ep outcome w))) POST_refresh
     = count_list (requests w) POST_refresh + (if ep = POST_refresh then 1 else 0)"
proof (cases outcome)
  case (Fulfilled body)
  then show ?thesis by (simp add: apiRequest_def Let_def)
next
  case (Rejected err)
  then show ?thesis
    by (cases err)
       (simp_all add: apiRequest_def dispatchEvent_auth_logout_def handleLogoutEvent_def
          Let_def)
qed

lemma apiRequest_quiet:
  "\<not> unauthorized outcome \<Longrightarrow>
   state (snd (apiRequest listening ep outcome w)) = state w
   \<and> localStorage (snd (apiRequest listening ep outcome w)) = localStorage w
   \<and> sessionStorage (snd (apiRequest listening ep outcome w)) = sessionStorage w"
proof (cases outcome)
  case (Fulfilled body)
  then show ?thesis by (simp add: apiRequest_def Let_def)
next
  case (Rejected err)
  assume "\<not> unauthorized outcome"
  with Rejected show ?thesis by (cases err) (simp_all add: apiRequest_def Let_def)
qed

lemma refreshToken_failure:
  "\<not> success outcome \<Longrightarrow> fst (refreshToken stringify listening outcome w) = False"
  using apiRequest_failure [of outcome listening POST_refresh w]
  by (auto simp: refreshToken_def Let_def split: prod.splits)

lemma refreshToken_requests:
  "count_list (requests (snd (refreshToken stringify listening outcome w))) POST_refresh
     = count_list (requests w) POST_refresh
       + (if truthy (nullable (token (state w))) then 1 else 0)"
  using apiRequest_requests [of listening POST_refresh outcome w]
  by (auto simp: refreshToken_def Let_def split: prod.splits)

text \<open>
  Claim C6. When the scheduled refresh does not succeed (an answer that is not ok, an
  answer without data, a null body, a rejected request), the interval's
  handler returns false and logs out: the state has no identity, no credential and is
  not authenticated, the credential key is removed from both stores, and at most one
  refresh request was sent.
\<close>

theorem failed_refresh_logs_out:
  assumes "\<not> success outcome"
  shows "fst (handleTokenExpiration stringify listening outcome w) = False
    \<and> isAuthenticated (state (snd (handleTokenExpiration stringify listening outcome w))) = False
    \<and> user (state (snd (handleTokenExpiration stringify listening outcome w))) = None
    \<and> token (state (snd (handleTokenExpiration stringify listening outcome w))) = None
    \<and> getItem (localStorage (snd (handleTokenExpiration stringify listening outcome w)))
         ''admin_token'' = None
    \<and> getItem (sessionStorage (snd (handleTokenExpiration stringify listening outcome w)))
         ''admin_token'' = None
    \<and> count_list (requests (snd (handleTokenExpiration stringify listening outcome w)))
         POST_refresh
       = count_list (requests w) POST_refresh
         + (if truthy (nullable (token (state w))) then 1 else 0)"
proof -
  obtain r w1 where rw: "refreshToken stringify listening outcome w = (r, w1)"
    by (cases "refreshToken stringify listening outcome w")
  with refreshToken_failure [OF assms, of stringify listening w] have r: "r = False" by simp
  from rw refreshToken_requests [of stringify listening outcome w]
  have c: "count_list (requests w1) POST_refresh
     = count_list (requests w) POST_refresh
       + (if truthy (nullable (token (state w))) then 1 else 0)" by simp
  have h: "handleTokenExpiration stringify listening outcome w = (False, logout w1)"
    using rw r by (simp add: handleTokenExpiration_def)
  show ?thesis using c by (simp add: h getItem_def removeItem_def)
qed

text \<open>A refresh that times out, and one that the backend answers as not ok.\<close>

theorem failed_refresh_logs_out_witness:
  "handleTokenExpiration example_stringify True
       (Rejected (NoResponse ''timeout of 30000ms exceeded'')) tab_session
     = (False,
        \<lparr>localStorage = Map.empty, sessionStorage = Map.empty,
         state = \<lparr>user = None, token = None, isAuthenticated = False, loading = False,
                   error = None\<rparr>,
         requests = [POST_refresh, POST_logout]\<rparr>)
   \<and> \<not> isAuthenticated (state (snd (handleTokenExpiration example_stringify True
       (Fulfilled (JObj [(''ok'', JBool False), (''error'', JStr ''Token expired'')]))
       tab_session)))"
proof -
  have h: "\<not> success (Fulfilled (JObj [(''ok'', JBool False), (''error'', JStr ''Token expired'')]))"
    by simp
  have a: "handleTokenExpiration example_stringify True
       (Rejected (NoResponse ''timeout of 30000ms exceeded'')) tab_session
     = (False,
        \<lparr>localStorage = Map.empty, sessionStorage = Map.empty,
         state = \<lparr>user = None, token = None, isAuthenticated = False, loading = False,
                   error = None\<rparr>,
         requests = [POST_refresh, POST_logout]\<rparr>)"
    by (simp add: handleTokenExpiration_def refreshToken_def apiRequest_def tab_session_def
          nullable_def ok_with_data_def logout_def clearAuthData_def dispatch_def
          removeItem_def Let_def)
  show ?thesis
    using a failed_refresh_logs_out [OF h, of example_stringify True tab_session] by simp
qed

text \<open>
  Claim C7, on a session that is not remembered. After a login without the preference the
  credential is in the tab-scoped store; a successful refresh then writes the renewed
  credential to the persistent store and leaves the tab-scoped store with the old one.
  The state, and with it the identity and the authenticated flag, is not touched.
\<close>

theorem refresh_writes_localStorage:
  "refreshToken example_stringify True (Fulfilled (JObj [(''token'', JStr ''T2'')]))
       (snd (login example_stringify example_toString True
          (Fulfilled (JObj [(''user'', example_identity), (''token'', JStr ''T1'')]))
          fresh_world))
     = (True,
        \<lparr>localStorage = [''admin_token'' \<mapsto> quote ''T2''],
         sessionStorage =
           [''admin_token'' \<mapsto> quote ''T1'', ''admin_user'' \<mapsto> example_identity_raw],
         state = \<lparr>user = Some example_identity, token = Some (JStr ''T1''),
                   isAuthenticated = True, loading = False, error = None\<rparr>,
         requests = [POST_login, POST_refresh]\<rparr>)
   \<and> \<not> remember (localStorage (snd (login example_stringify example_toString True
          (Fulfilled (JObj [(''user'', example_identity), (''token'', JStr ''T1'')]))
          fresh_world)))"
  by (simp add: refreshToken_def login_def apiRequest_def fresh_world_def initialState_def
        nullable_def ok_with_data_def dispatch_def remember_def getItem_def setItem_def
        removeItem_def example_stringify_def example_identity_def js_field_def
        stored_text_def Let_def)

text \<open>
  Claim C8, as the code has it. A validation call that fails with anything but an error
  response of status 401 changes neither the session state nor the stores, whether it was
  triggered by the page becoming visible or not; \<^verbatim>\<open>validateSession\<close> returns false.
\<close>

theorem failed_validation_keeps_session:
  assumes "\<not> success outcome" and "\<not> unauthorized outcome"
  shows "state (handleVisibilityChange stringify setToStorage listening vis outcome w) = state w
    \<and> localStorage (handleVisibilityChange stringify setToStorage listening vis outcome w)
        = localStorage w
    \<and> sessionStorage (handleVisibilityChange stringify setToStorage listening vis outcome w)
        = sessionStorage w
    \<and> fst (validateSession stringify setToStorage listening outcome w) = False"
  using apiRequest_failure [OF assms(1), of listening GET_me w]
    apiRequest_quiet [OF assms(2), of listening GET_me w]
  by (auto simp: handleVisibilityChange_def validateSession_def Let_def split: prod.splits)

text \<open>
  Three failed validations on an authenticated session: an answer with status 500, an
  answer whose body is \<^verbatim>\<open>null\<close>, and an answer that is ok with an empty string as data.
\<close>

theorem failed_validation_keeps_session_witness:
  "isAuthenticated (state (handleVisibilityChange example_stringify example_setToStorage True
       visible (Rejected (ErrorResponse 500 None (Some ''Server Error''))) tab_session))
   \<and> state (handleVisibilityChange example_stringify example_setToStorage True visible
       (Fulfilled JNull) tab_session) = state tab_session
   \<and> state (handleVisibilityChange example_stringify example_setToStorage True visible
       (Fulfilled (JObj [(''ok'', JBool True), (''data'', JStr [])])) tab_session)
     = state tab_session"
proof -
  have h1: "\<not> success (Rejected (ErrorResponse 500 None (Some ''Server Error'')))
      \<and> \<not> unauthorized (Rejected (ErrorResponse 500 None (Some ''Server Error'')))"
    by simp
  have h2: "\<not> success (Fulfilled JNull) \<and> \<not> unauthorized (Fulfilled JNull)"
    by simp
  have h3: "\<not> success (Fulfilled (JObj [(''ok'', JBool True), (''data'', JStr [])]))
      \<and> \<not> unauthorized (Fulfilled (JObj [(''ok'', JBool True), (''data'', JStr [])]))"
    by simp
  have auth: "isAuthenticated (state tab_session)"
    by (simp add: tab_session_def)
  show ?thesis
    using auth
      failed_validation_keeps_session [of "Rejected (ErrorResponse 500 None (Some ''Server Error''))"
        example_stringify example_setToStorage True visible tab_session]
      failed_validation_keeps_session [of "Fulfilled JNull"
        example_stringify example_setToStorage True visible tab_session]
      failed_validation_keeps_session [of "Fulfilled (JObj [(''ok'', JBool True), (''data'', JStr [])])"
        example_stringify example_setToStorage True visible tab_session]
      h1 h2 h3
    by simp
qed

text \<open>
  A validation answered with status 401 logs the session out: the response interceptor
  clears the stores and fires \<^verbatim>\<open>auth:logout\<close>, and the hook's listener calls \<^verbatim>\<open>logout\<close>.
\<close>

theorem failed_validation_counterexample:
  "isAuthenticated (state tab_session)
   \<and> \<not> isAuthenticated (state (handleVisibilityChange example_stringify example_setToStorage
        True visible (Rejected (ErrorResponse 401 None (Some ''Unauthenticated.''))) tab_session))"
  by (simp add: handleVisibilityChange_def validateSession_def apiRequest_def tab_session_def
        nullable_def ok_with_data_def dispatchEvent_auth_logout_def handleLogoutEvent_def
        Let_def)

text \<open>
  Claim C9. A storage event for the credential key with no new value makes the listener
  call \<^verbatim>\<open>logout\<close> in the same handler run, after which the session is not authenticated
  and has neither identity nor credential.
\<close>

theorem storage_deletion_logs_out:
  assumes "key e = Some ''admin_token''" and "newValue e = None"
  shows "handleStorageChange e w = logout w
    \<and> isAuthenticated (state (handleStorageChange e w)) = False
    \<and> user (state (handleStorageChange e w)) = None
    \<and> token (state (handleStorageChange e w)) = None"
  using assms by (simp add: handleStorageChange_def)

text \<open>The deletion event observed by an authenticated session.\<close>

theorem storage_deletion_logs_out_witness:
  "isAuthenticated (state tab_session)
   \<and> \<not> isAuthenticated (state (handleStorageChange
         \<lparr>key = Some ''admin_token'', newValue = None\<rparr> tab_session))"
  using storage_deletion_logs_out [of "\<lparr>key = Some ''admin_token'', newValue = None\<rparr>" tab_session]
  by (simp add: tab_session_def)

end
